theory Spec2Isabelle
  imports Complex_Main "HOL-Library.Word"
begin

unbundle bit_operations_syntax

section \<open>The heart-rate badge app: data model\<close>

text \<open>
  The app (\<^verbatim>\<open>src/badge/apps/heartrate/__init__.py\<close>) keeps one module-level dictionary
  \<^verbatim>\<open>state\<close> with seven fixed keys; it is a record here. Ticks and the heart rate are
  Python integers, hence \<open>int\<close>. Nothing in the module ever appends to
  \<^verbatim>\<open>devices_found\<close>, so the type of its elements is left open.
\<close>

record 'd app_state =
  heart_rate :: int
  is_connected :: bool
  is_scanning :: bool
  scan_start :: int
  scan_duration :: int
  hr_update_time :: int
  devices_found :: "'d list"

text \<open>The dictionary literal of lines 18-26.\<close>

definition state :: "'d app_state" where
  "state = \<lparr>heart_rate = 0, is_connected = False, is_scanning = False, scan_start = 0,
            scan_duration = 3000, hr_update_time = 0, devices_found = []\<rparr>"

text \<open>
  The host's input module: \<^verbatim>\<open>io.pressed\<close> is the set of buttons newly pressed in the
  current frame and \<^verbatim>\<open>io.ticks\<close> the millisecond counter of the frame. The app only
  asks whether \<^verbatim>\<open>BUTTON_A\<close> and \<^verbatim>\<open>BUTTON_HOME\<close> are members; the other
  constructors are the badge's remaining buttons, which it ignores. The host sets
  \<^verbatim>\<open>io.ticks\<close> once per frame, so every read of it inside one call of \<^verbatim>\<open>update\<close>
  sees the same value: the functions below take it as the argument \<open>ticks\<close>.
\<close>

datatype button = BUTTON_A | BUTTON_B | BUTTON_C | BUTTON_UP | BUTTON_DOWN | BUTTON_HOME

text \<open>The exceptions the state-dependent part of \<^verbatim>\<open>update\<close> can raise.\<close>

datatype error = ZeroDivisionError | OverflowError

text \<open>
  The float library, which is not part of the module. \<open>truediv n d\<close> is Python's
  \<^verbatim>\<open>n / d\<close> for an integer \<open>n\<close> and a float \<open>d\<close>: the float quotient, or \<open>None\<close>
  where the conversion of \<open>n\<close> to a float raises \<^verbatim>\<open>OverflowError\<close>. \<open>math_sin\<close> is
  \<^verbatim>\<open>math.sin\<close> on floats. A float is the real number it denotes. The library is an
  argument of every function that depends on it, and nothing is assumed of it except
  where a theorem says so: what \<^verbatim>\<open>math.sin\<close> returns is near the real sine, not always
  equal to it, and lies between -1 and 1.
\<close>

record float_lib =
  truediv :: "int \<Rightarrow> real \<Rightarrow> real option"
  math_sin :: "real \<Rightarrow> real"

text \<open>
  One library, for the concrete runs below: exact division for integers below
  \<open>2 ^ 1024\<close> in absolute value, the overflow beyond, and the real sine. Every general
  theorem holds for any library; at the ticks where a concrete run evaluates the sine,
  what is stated of the result holds of the float sine as well.
\<close>

definition exact_lib :: float_lib where
  "exact_lib =
     \<lparr>truediv = (\<lambda>n d. if \<bar>n\<bar> < 2 ^ 1024 then Some (real_of_int n / d) else None),
      math_sin = sin\<rparr>"

section \<open>Operations\<close>

text \<open>
  \<^verbatim>\<open>BLUETOOTH_AVAILABLE\<close> (lines 5-9) is fixed when the module is imported: true iff
  \<^verbatim>\<open>import bluetooth\<close> succeeds. It is the first argument of every function that
  depends on it.

  \<^verbatim>\<open>_start_scan\<close>, lines 33-39.
\<close>

definition start_scan :: "bool \<Rightarrow> int \<Rightarrow> 'd app_state \<Rightarrow> 'd app_state" where
  "start_scan bluetooth_available ticks s =
     (if \<not> bluetooth_available then s
      else s\<lparr>is_scanning := True, scan_start := ticks, devices_found := []\<rparr>)"

text \<open>
  \<^verbatim>\<open>_parse_heart_rate\<close>, lines 47-57. The argument is the value of a BLE
  characteristic, a byte string; indexing it gives Python integers in 0..255, so the
  shift and the bitwise or are computed on unbounded integers. Every index is guarded
  by a length test, so no read is out of range.
\<close>

definition parse_heart_rate :: "8 word list \<Rightarrow> int option" where
  "parse_heart_rate data =
     (if data = [] \<or> length data < 2 then None
      else let flags = uint (data ! 0) in
        if flags AND 1 = 0 then Some (uint (data ! 1))
        else if length data \<ge> 3 then Some (push_bit 8 (uint (data ! 2)) OR uint (data ! 1))
        else None)"

text \<open>
  Python's \<^verbatim>\<open>int(x)\<close> on a float: truncation towards zero.
\<close>

definition int_of_float :: "real \<Rightarrow> int" where
  "int_of_float x = (if 0 \<le> x then \<lfloor>x\<rfloor> else \<lceil>x\<rceil>)"

text \<open>
  \<^verbatim>\<open>_simulate_hr_reading\<close>, lines 60-68. The key \<^verbatim>\<open>hr_update_time\<close> is always present,
  so \<^verbatim>\<open>state.get("hr_update_time", 0)\<close> is the field. The quotient
  \<^verbatim>\<open>now / 1000.0\<close> and \<^verbatim>\<open>math.sin\<close> are the float library's. When the quotient
  raises, at line 66, nothing has been assigned yet: the dictionary is returned as it
  was, next to the exception. The product with 8 is exact on a float between -1 and 1,
  and \<^verbatim>\<open>int\<close> truncates exactly, so these two are real multiplication and
  \<open>int_of_float\<close>.
\<close>

definition simulate_hr_reading ::
  "float_lib \<Rightarrow> int \<Rightarrow> 'd app_state \<Rightarrow> (error + unit) \<times> 'd app_state" where
  "simulate_hr_reading lib ticks s =
     (let now = ticks in
      if now - hr_update_time s \<ge> 500 then
        let base_hr = 72 in
        case truediv lib now 1000 of
          None \<Rightarrow> (Inl OverflowError, s)
        | Some x \<Rightarrow>
            let variation = int_of_float (math_sin lib x * 8)
            in (Inr (), s\<lparr>heart_rate := base_hr + variation, hr_update_time := now\<rparr>)
      else (Inr (), s))"

text \<open>
  \<^verbatim>\<open>update\<close>, lines 86-156, in the order of the source. The calls that clear the screen,
  load the font and draw read the state and never write it; they are left out, except
  for the division of line 146, which raises when \<^verbatim>\<open>scan_duration\<close> is zero. An
  exception of \<^verbatim>\<open>_simulate_hr_reading\<close> passes through \<^verbatim>\<open>update\<close>. The
  assignments made before a raise stay in the dictionary, so the state is returned in
  every case, next to the result.

  The two blocks that write the state are named so that they can be referred to:
  \<open>handle_button_a\<close> is lines 96-103 and \<open>scan_timeout\<close> is lines 115-121.
\<close>

definition handle_button_a ::
  "bool \<Rightarrow> button set \<Rightarrow> int \<Rightarrow> 'd app_state \<Rightarrow> 'd app_state" where
  "handle_button_a bluetooth_available pressed ticks s =
     (if BUTTON_A \<in> pressed then
        if \<not> is_connected s \<and> \<not> is_scanning s then start_scan bluetooth_available ticks s
        else if is_connected s then s\<lparr>is_connected := False, heart_rate := 0\<rparr>
        else s
      else s)"

definition scan_timeout :: "int \<Rightarrow> 'd app_state \<Rightarrow> 'd app_state" where
  "scan_timeout now s =
     (if is_scanning s then
        let elapsed = now - scan_start s in
        if elapsed \<ge> scan_duration s then
          s\<lparr>is_scanning := False, is_connected := True, hr_update_time := now\<rparr>
        else s
      else s)"

definition update ::
  "float_lib \<Rightarrow> bool \<Rightarrow> button set \<Rightarrow> int \<Rightarrow> 'd app_state
     \<Rightarrow> (error + bool) \<times> 'd app_state" where
  "update lib bluetooth_available pressed ticks s =
     (let s1 = handle_button_a bluetooth_available pressed ticks s in
      if BUTTON_HOME \<in> pressed then (Inr False, s1)
      else
        let now = ticks;
            s2 = scan_timeout now s1
        in if is_connected s2 then
             (case simulate_hr_reading lib ticks s2 of
                (Inl e, s3) \<Rightarrow> (Inl e, s3)
              | (Inr u, s3) \<Rightarrow> (Inr True, s3))
           else if is_scanning s2 then
             (if scan_duration s2 = 0 then (Inl ZeroDivisionError, s2) else (Inr True, s2))
           else (Inr True, s2))"

text \<open>\<^verbatim>\<open>init\<close>, lines 159-161, and \<^verbatim>\<open>on_exit\<close>, lines 164-169.\<close>

definition init :: "'d app_state \<Rightarrow> 'd app_state" where
  "init s = s"

definition on_exit :: "'d app_state \<Rightarrow> 'd app_state" where
  "on_exit s = s\<lparr>is_connected := False, is_scanning := False, heart_rate := 0\<rparr>"

section \<open>The host: sequences of lifecycle calls\<close>

text \<open>
  The host calls \<^verbatim>\<open>init\<close>, \<^verbatim>\<open>update\<close> and \<^verbatim>\<open>on_exit\<close>; each call of
  \<^verbatim>\<open>update\<close> has its own set of pressed buttons and its own tick. \<open>host_calls\<close> is
  the state of the dictionary after a sequence of such calls, in any order and with
  any inputs.
\<close>

datatype call = Init | Update "button set" int | OnExit

fun host_call :: "float_lib \<Rightarrow> bool \<Rightarrow> call \<Rightarrow> 'd app_state \<Rightarrow> 'd app_state" where
  "host_call lib bluetooth_available Init s = init s"
| "host_call lib bluetooth_available (Update pressed ticks) s =
     snd (update lib bluetooth_available pressed ticks s)"
| "host_call lib bluetooth_available OnExit s = on_exit s"

fun host_calls :: "float_lib \<Rightarrow> bool \<Rightarrow> call list \<Rightarrow> 'd app_state \<Rightarrow> 'd app_state" where
  "host_calls lib bluetooth_available [] s = s"
| "host_calls lib bluetooth_available (c # cs) s =
     host_calls lib bluetooth_available cs (host_call lib bluetooth_available c s)"

text \<open>
  The reference function of the heart-rate measurement encoding, as the specification
  words it: byte 0 is the flags field, bit 0 selects the 8-bit or the little-endian
  16-bit format.
\<close>

definition parse_heart_rate_ref :: "8 word list \<Rightarrow> int option" where
  "parse_heart_rate_ref bs =
     (if length bs < 2 then None
      else if \<not> bit (bs ! 0) 0 then Some (uint (bs ! 1))
      else if length bs \<ge> 3 then Some (push_bit 8 (uint (bs ! 2)) OR uint (bs ! 1))
      else None)"

section \<open>Basic facts\<close>

lemma host_calls_append:
  "host_calls lib b (cs @ ds) s = host_calls lib b ds (host_calls lib b cs s)"
  by (induction cs arbitrary: s) simp_all

lemma flags_bit0: "(uint (w :: 8 word) AND 1 = 0) = (\<not> bit w 0)"
proof -
  have "bit w 0 = bit (uint w) 0"
    by (simp add: bit_uint_iff)
  then show ?thesis
    by (simp add: and_one_eq bit_0 even_iff_mod_2_eq_zero)
qed

lemma parse_heart_rate_eq_ref: "parse_heart_rate data = parse_heart_rate_ref data"
  by (auto simp add: parse_heart_rate_def parse_heart_rate_ref_def Let_def flags_bit0)

section \<open>Parsing the heart-rate measurement\<close>

text \<open>
  C4. On every byte sequence \<open>parse_heart_rate\<close> equals the reference function: no
  value for fewer than two bytes; byte 1 when bit 0 of byte 0 is clear; the
  little-endian 16-bit value of bytes 1 and 2 when bit 0 is set and there are at least
  three bytes; no value when bit 0 is set and there are exactly two bytes. The examples
  of the specification are instances: \<open>[0x00, 66]\<close> gives 66, \<open>[0x01, 0x4B, 0x00]\<close>
  gives 75, the empty sequence and \<open>[0x01]\<close> give no value.
\<close>

theorem parse_heart_rate_refines:
  "parse_heart_rate data = parse_heart_rate_ref data
   \<and> parse_heart_rate [0x00, 66] = Some 66
   \<and> parse_heart_rate [0x01, 0x4B, 0x00] = Some 75
   \<and> parse_heart_rate [0x01, 0x4B] = None
   \<and> parse_heart_rate [] = None
   \<and> parse_heart_rate [0x01] = None"
proof -
  have "parse_heart_rate [0x00, 66] = Some 66"
    by (simp add: parse_heart_rate_def)
  moreover have "parse_heart_rate [0x01, 0x4B, 0x00] = Some 75"
    by (simp add: parse_heart_rate_def)
  moreover have "parse_heart_rate [0x01, 0x4B] = None"
    by (simp add: parse_heart_rate_def)
  moreover have "parse_heart_rate [] = None" and "parse_heart_rate [0x01] = None"
    by (simp_all add: parse_heart_rate_def)
  ultimately show ?thesis
    using parse_heart_rate_eq_ref [of data] by simp
qed

section \<open>Leaving the app\<close>

text \<open>
  C9. Whatever the state before, after \<open>on_exit\<close> the heart rate is 0 and the app is
  neither connected nor scanning.
\<close>

theorem on_exit_resets:
  "heart_rate (on_exit s) = 0 \<and> \<not> is_connected (on_exit s) \<and> \<not> is_scanning (on_exit s)"
  by (simp add: on_exit_def)

section \<open>The simulated reading\<close>

lemma int_of_float_bounds: "\<bar>x\<bar> \<le> 8 \<Longrightarrow> - 8 \<le> int_of_float x \<and> int_of_float x \<le> 8"
  unfolding int_of_float_def
  by (auto simp: le_floor_iff floor_le_iff ceiling_le_iff le_ceiling_iff)

lemma variation_bounds:
  "\<bar>v\<bar> \<le> (1::real) \<Longrightarrow> - 8 \<le> int_of_float (v * 8) \<and> int_of_float (v * 8) \<le> 8"
  by (rule int_of_float_bounds) (simp add: abs_mult)

lemma exact_lib_truediv:
  "\<bar>n\<bar> < 2 ^ 1024 \<Longrightarrow> truediv exact_lib n d = Some (real_of_int n / d)"
  "\<not> \<bar>n\<bar> < 2 ^ 1024 \<Longrightarrow> truediv exact_lib n d = None"
  by (simp_all add: exact_lib_def)

lemma exact_lib_sin: "math_sin exact_lib x = sin x"
  by (simp add: exact_lib_def)

lemma simulate_hr_reading_fields:
  "is_connected (snd (simulate_hr_reading lib now s)) = is_connected s"
  "is_scanning (snd (simulate_hr_reading lib now s)) = is_scanning s"
  "scan_start (snd (simulate_hr_reading lib now s)) = scan_start s"
  "scan_duration (snd (simulate_hr_reading lib now s)) = scan_duration s"
  "devices_found (snd (simulate_hr_reading lib now s)) = devices_found s"
  by (simp_all add: simulate_hr_reading_def Let_def split: option.split)

lemma simulate_hr_reading_waits:
  "now - hr_update_time s < 500 \<Longrightarrow> simulate_hr_reading lib now s = (Inr (), s)"
  by (simp add: simulate_hr_reading_def)

text \<open>
  The sine of 1 lies between 0.8125 and 0.875, from the first terms of its series: so
  eight times it truncates to 6 and rounds to 7.
\<close>

lemma sin_coeffs:
  "sin_coeff (Suc 0) = 1" "sin_coeff 2 = 0" "sin_coeff 3 = - 1 / 6" "sin_coeff 4 = 0"
  by (simp_all add: sin_coeff_def fact_numeral)

lemma sin_sum5: "(\<Sum>m<5. sin_coeff m * (1::real) ^ m) = 5 / 6"
proof -
  have "{..<5::nat} = {0, 1, 2, 3, 4}" by auto
  then show ?thesis by (simp add: sin_coeffs)
qed

lemma sin_1_bounds: "13 / 16 \<le> sin (1::real) \<and> sin (1::real) < 7 / 8"
proof -
  have "\<bar>sin (1::real) - 5 / 6\<bar> \<le> 1 / 120"
    using Maclaurin_sin_bound [of 1 5] unfolding sin_sum5
    by (simp add: fact_numeral)
  then show ?thesis by linarith
qed

lemma round_sin_1: "round (sin (1::real) * 8) = 7"
  using sin_1_bounds unfolding round_def
  by (auto simp: floor_eq_iff)

text \<open>
  Whatever the library, if its quotient \<^verbatim>\<open>1000 / 1000.0\<close> is some \<open>x\<close> and its sine
  of \<open>x\<close> lies between 0.8125 and 0.875, as the float sine of 1.0 does
  (0.8414709848078965), the reading taken at tick 1000 is 78.
\<close>

lemma trunc_near_sin_1: "13 / 16 \<le> v \<Longrightarrow> v < 7 / 8 \<Longrightarrow> int_of_float (v * 8) = 6"
  unfolding int_of_float_def by (auto simp: floor_eq_iff)

lemma simulate_hr_reading_78:
  "1000 - hr_update_time s \<ge> 500 \<Longrightarrow> truediv lib 1000 1000 = Some x \<Longrightarrow>
     13 / 16 \<le> math_sin lib x \<Longrightarrow> math_sin lib x < 7 / 8 \<Longrightarrow>
     heart_rate (snd (simulate_hr_reading lib 1000 s)) = 78"
  by (simp add: simulate_hr_reading_def trunc_near_sin_1)

text \<open>
  C8. For every state and every tick \<open>now\<close>: when \<open>now - hr_update_time < 500\<close> the
  simulation returns normally and leaves the whole state as it is; in every case it
  writes no field other than \<open>heart_rate\<close> and \<open>hr_update_time\<close>; and a second call
  within 500 ms of the tick the first one left in \<open>hr_update_time\<close>, in particular a
  second call at the same tick, changes nothing.
\<close>

theorem simulate_hr_reading_frame:
  "(now - hr_update_time s < 500 \<longrightarrow> simulate_hr_reading lib now s = (Inr (), s))
   \<and> snd (simulate_hr_reading lib now s) =
       s\<lparr>heart_rate := heart_rate (snd (simulate_hr_reading lib now s)),
         hr_update_time := hr_update_time (snd (simulate_hr_reading lib now s))\<rparr>
   \<and> (now' - hr_update_time (snd (simulate_hr_reading lib now s)) < 500 \<longrightarrow>
        simulate_hr_reading lib now' (snd (simulate_hr_reading lib now s))
          = (Inr (), snd (simulate_hr_reading lib now s)))
   \<and> snd (simulate_hr_reading lib now (snd (simulate_hr_reading lib now s)))
       = snd (simulate_hr_reading lib now s)"
  by (simp add: simulate_hr_reading_def Let_def split: option.split)

text \<open>
  A connected state last refreshed at tick 3001: the call at tick 3200 changes nothing;
  the call at tick 3600 refreshes, and the call at tick 3700 after it changes nothing.
\<close>

theorem simulate_hr_reading_frame_witness:
  "3200 - hr_update_time
       (state\<lparr>is_connected := True, hr_update_time := 3001\<rparr> :: string app_state) < 500
   \<and> simulate_hr_reading exact_lib 3200
       (state\<lparr>is_connected := True, hr_update_time := 3001\<rparr> :: string app_state)
       = (Inr (), state\<lparr>is_connected := True, hr_update_time := 3001\<rparr>)
   \<and> hr_update_time (snd (simulate_hr_reading exact_lib 3600
       (state\<lparr>is_connected := True, hr_update_time := 3001\<rparr> :: string app_state))) = 3600
   \<and> 3700 - hr_update_time (snd (simulate_hr_reading exact_lib 3600
       (state\<lparr>is_connected := True, hr_update_time := 3001\<rparr> :: string app_state))) < 500
   \<and> simulate_hr_reading exact_lib 3700 (snd (simulate_hr_reading exact_lib 3600
       (state\<lparr>is_connected := True, hr_update_time := 3001\<rparr> :: string app_state)))
       = (Inr (), snd (simulate_hr_reading exact_lib 3600
           (state\<lparr>is_connected := True, hr_update_time := 3001\<rparr>)))"
  using
    simulate_hr_reading_frame
      [where now = 3200 and lib = exact_lib and now' = 0
         and s = "state\<lparr>is_connected := True, hr_update_time := 3001\<rparr> :: string app_state"]
    simulate_hr_reading_frame
      [where now = 3600 and lib = exact_lib and now' = 3700
         and s = "state\<lparr>is_connected := True, hr_update_time := 3001\<rparr> :: string app_state"]
  by (simp add: state_def simulate_hr_reading_def exact_lib_def)

text \<open>
  C7, as the specification states it, with \<open>round\<close>: it fails. At tick 1000, on the
  initial dictionary, the source computes \<^verbatim>\<open>int(math.sin(1.0) * 8)\<close>, which truncates
  6.73 to 6, and stores 78; rounding gives 79.
\<close>

theorem simulate_hr_reading_not_round:
  "heart_rate (snd (simulate_hr_reading exact_lib 1000 (state :: string app_state))) = 78
   \<and> heart_rate (snd (simulate_hr_reading exact_lib 1000 (state :: string app_state)))
       \<noteq> 72 + round (sin (real_of_int 1000 / 1000) * 8)"
proof -
  have "heart_rate (snd (simulate_hr_reading exact_lib 1000 (state :: string app_state))) = 78"
    using sin_1_bounds
    by (intro simulate_hr_reading_78 [where x = 1])
       (simp_all add: state_def exact_lib_truediv exact_lib_sin)
  then show ?thesis by (simp add: round_sin_1)
qed

text \<open>
  C7, amended. For every tick \<open>now\<close> with \<open>now - hr_update_time \<ge> 500\<close>: when the float
  library forms the quotient \<^verbatim>\<open>now / 1000.0\<close>, the simulation sets \<open>heart_rate\<close> to 72
  plus \<^verbatim>\<open>math.sin\<close> of the quotient times 8 truncated towards zero, where
  \<^verbatim>\<open>math.sin\<close> is the float library's sine, of absolute value at most 1, sets
  \<open>hr_update_time\<close> to \<open>now\<close> and changes nothing else, and the resulting heart rate
  lies in the interval from 64 to 80; when the quotient overflows, the simulation
  raises \<^verbatim>\<open>OverflowError\<close> and changes nothing.
\<close>

theorem simulate_hr_reading_recomputes:
  assumes "now - hr_update_time s \<ge> 500"
  shows "(truediv lib now 1000 = Some x \<and> \<bar>math_sin lib x\<bar> \<le> 1 \<longrightarrow>
            simulate_hr_reading lib now s =
              (Inr (), s\<lparr>heart_rate := 72 + int_of_float (math_sin lib x * 8),
                         hr_update_time := now\<rparr>)
            \<and> 64 \<le> heart_rate (snd (simulate_hr_reading lib now s))
            \<and> heart_rate (snd (simulate_hr_reading lib now s)) \<le> 80)
         \<and> (truediv lib now 1000 = None \<longrightarrow>
              simulate_hr_reading lib now s = (Inl OverflowError, s))"
  using assms variation_bounds [of "math_sin lib x"]
  by (auto simp add: simulate_hr_reading_def Let_def)

theorem simulate_hr_reading_recomputes_witness:
  "1000 - hr_update_time (state :: string app_state) \<ge> 500
   \<and> truediv exact_lib 1000 1000 = Some 1 \<and> \<bar>math_sin exact_lib 1\<bar> \<le> 1
   \<and> simulate_hr_reading exact_lib 1000 (state :: string app_state)
       = (Inr (), state\<lparr>heart_rate := 72 + int_of_float (math_sin exact_lib 1 * 8),
                        hr_update_time := 1000\<rparr>)
   \<and> 64 \<le> heart_rate (snd (simulate_hr_reading exact_lib 1000 (state :: string app_state)))
   \<and> heart_rate (snd (simulate_hr_reading exact_lib 1000 (state :: string app_state))) \<le> 80
   \<and> 2 ^ 1024 - hr_update_time (state :: string app_state) \<ge> 500
   \<and> truediv exact_lib (2 ^ 1024) 1000 = None
   \<and> simulate_hr_reading exact_lib (2 ^ 1024) (state :: string app_state)
       = (Inl OverflowError, state)"
  using
    simulate_hr_reading_recomputes
      [where s = "state :: string app_state" and now = 1000 and lib = exact_lib and x = 1]
    simulate_hr_reading_recomputes
      [where s = "state :: string app_state" and now = "2 ^ 1024" and lib = exact_lib and x = 1]
    variation_bounds [of "sin 1"]
  by (simp add: state_def exact_lib_truediv exact_lib_sin)

section \<open>The update loop\<close>

lemmas update_defs =
  update_def handle_button_a_def scan_timeout_def start_scan_def simulate_hr_reading_def Let_def

text \<open>
  The dictionary after a frame, whatever the frame returns or raises: the state after
  the button handling when the home button is pressed, otherwise the state after the
  timeout check, passed through the simulation when it is connected.
\<close>

lemma snd_update:
  "snd (update lib b pressed now s) =
     (let s1 = handle_button_a b pressed now s in
      if BUTTON_HOME \<in> pressed then s1
      else let s2 = scan_timeout now s1 in
        if is_connected s2 then snd (simulate_hr_reading lib now s2) else s2)"
  by (simp add: update_def Let_def split: prod.split sum.split)

text \<open>
  No statement of the module writes \<open>scan_duration\<close>: it stays at the 3000 of the
  dictionary literal.
\<close>

lemma update_scan_duration:
  "scan_duration (snd (update lib b pressed now s)) = scan_duration s"
  by (simp add: snd_update Let_def simulate_hr_reading_fields
        handle_button_a_def scan_timeout_def start_scan_def)

lemma host_calls_scan_duration: "scan_duration (host_calls lib b cs s) = scan_duration s"
proof (induction cs arbitrary: s)
  case Nil
  show ?case by simp
next
  case (Cons c cs)
  have "scan_duration (host_call lib b c s) = scan_duration s"
    by (cases c) (simp_all add: init_def on_exit_def update_scan_duration)
  with Cons show ?case by simp
qed

subsection \<open>Starting a scan\<close>

text \<open>
  C1, as the specification states it, for every call: it fails when the bluetooth
  module could not be imported. On the initial dictionary, which is neither connected
  nor scanning, a frame at tick 5 with the action button pressed leaves
  \<open>is_scanning\<close> false and \<open>scan_start\<close> at 0.
\<close>

theorem update_press_without_bluetooth:
  "\<not> is_connected (state :: string app_state) \<and> \<not> is_scanning (state :: string app_state)
   \<and> \<not> is_scanning (snd (update exact_lib False {BUTTON_A} 5 (state :: string app_state)))
   \<and> scan_start (snd (update exact_lib False {BUTTON_A} 5 (state :: string app_state))) \<noteq> 5"
  by (simp add: update_defs state_def)

text \<open>
  C1, amended. When the bluetooth module is available, for every call of \<open>update\<close> in
  which the action button is pressed while the app is neither connected nor scanning
  (and \<open>scan_duration\<close> is positive, as its fixed value 3000 is), the frame sets
  \<open>is_scanning\<close> to true, \<open>scan_start\<close> to the tick of the frame, clears
  \<open>devices_found\<close>, and changes nothing else.
\<close>

theorem update_press_starts_scan:
  "BUTTON_A \<in> pressed \<Longrightarrow> \<not> is_connected s \<Longrightarrow> \<not> is_scanning s \<Longrightarrow> 0 < scan_duration s \<Longrightarrow>
     snd (update lib True pressed now s)
       = s\<lparr>is_scanning := True, scan_start := now, devices_found := []\<rparr>"
  by (simp add: update_defs)

theorem update_press_starts_scan_witness:
  "BUTTON_A \<in> {BUTTON_A} \<and> \<not> is_connected (state\<lparr>devices_found := [''AA:BB'']\<rparr>)
   \<and> \<not> is_scanning (state\<lparr>devices_found := [''AA:BB'']\<rparr>)
   \<and> 0 < scan_duration (state\<lparr>devices_found := [''AA:BB'']\<rparr>)
   \<and> snd (update exact_lib True {BUTTON_A} 250 (state\<lparr>devices_found := [''AA:BB'']\<rparr>))
      = state\<lparr>is_scanning := True, scan_start := 250\<rparr>"
  using update_press_starts_scan
    [where pressed = "{BUTTON_A}" and s = "state\<lparr>devices_found := [''AA:BB'']\<rparr>"
       and now = 250 and lib = exact_lib]
  by (simp add: state_def)

subsection \<open>Without the bluetooth module\<close>

lemma update_idle_without_bluetooth:
  "\<not> is_connected s \<Longrightarrow> \<not> is_scanning s \<Longrightarrow>
     update lib False pressed now s = (Inr (BUTTON_HOME \<notin> pressed), s)"
  by (simp add: update_defs)

lemma on_exit_idle:
  "\<not> is_connected s \<Longrightarrow> \<not> is_scanning s \<Longrightarrow> heart_rate s = 0 \<Longrightarrow> on_exit s = s"
  by (simp add: on_exit_def)

lemma host_calls_without_bluetooth:
  "\<not> is_connected s \<Longrightarrow> \<not> is_scanning s \<Longrightarrow> heart_rate s = 0 \<Longrightarrow>
     host_calls lib False cs s = s"
proof (induction cs)
  case Nil
  show ?case by simp
next
  case (Cons c cs)
  then have "host_call lib False c s = s"
    by (cases c) (simp_all add: init_def on_exit_idle update_idle_without_bluetooth)
  with Cons show ?case by simp
qed

text \<open>
  C10. When \<^verbatim>\<open>BLUETOOTH_AVAILABLE\<close> is false, \<open>start_scan\<close> returns the state as it
  is; a frame in which the action button is pressed while the app is neither connected
  nor scanning leaves every field unchanged; and after any sequence of lifecycle calls
  from the initial dictionary the dictionary is still the initial one, so the app never
  leaves the idle state.
\<close>

theorem no_bluetooth_stays_idle:
  "start_scan False now (s :: 'd app_state) = s
   \<and> (BUTTON_A \<in> pressed \<and> \<not> is_connected s \<and> \<not> is_scanning s \<longrightarrow>
        snd (update lib False pressed now s) = s)
   \<and> host_calls lib False cs (state :: 'd app_state) = state"
proof -
  have "host_calls lib False cs (state :: 'd app_state) = state"
    by (rule host_calls_without_bluetooth) (simp_all add: state_def)
  then show ?thesis
    by (simp add: start_scan_def update_idle_without_bluetooth)
qed

theorem no_bluetooth_stays_idle_witness:
  "BUTTON_A \<in> {BUTTON_A}
   \<and> \<not> is_connected (state :: string app_state) \<and> \<not> is_scanning (state :: string app_state)
   \<and> snd (update exact_lib False {BUTTON_A} 250 (state :: string app_state)) = state
   \<and> host_calls exact_lib False
        [Init, Update {BUTTON_A} 0, Update {} 3001, Update {BUTTON_A} 4000]
        (state :: string app_state) = state"
  using no_bluetooth_stays_idle
    [where now = 250 and s = "state :: string app_state" and pressed = "{BUTTON_A}"
       and lib = exact_lib
       and cs = "[Init, Update {BUTTON_A} 0, Update {} 3001, Update {BUTTON_A} 4000]"]
  by (simp add: state_def)

subsection \<open>Invariants of the dictionary\<close>

lemma update_exclusive:
  "\<not> (is_connected s \<and> is_scanning s) \<Longrightarrow>
     \<not> (is_connected (snd (update lib b pressed now s))
        \<and> is_scanning (snd (update lib b pressed now s)))"
  by (auto simp add: snd_update Let_def simulate_hr_reading_fields
        handle_button_a_def scan_timeout_def start_scan_def)

lemma host_call_exclusive:
  "\<not> (is_connected s \<and> is_scanning s) \<Longrightarrow>
     \<not> (is_connected (host_call lib b c s) \<and> is_scanning (host_call lib b c s))"
  using update_exclusive [of s] by (cases c) (simp_all add: init_def on_exit_def)

lemma host_calls_exclusive:
  "\<not> (is_connected s \<and> is_scanning s) \<Longrightarrow>
     \<not> (is_connected (host_calls lib b cs s) \<and> is_scanning (host_calls lib b cs s))"
proof (induction cs arbitrary: s)
  case Nil
  then show ?case by simp
next
  case (Cons c cs)
  from Cons.prems
  have "\<not> (is_connected (host_call lib b c s) \<and> is_scanning (host_call lib b c s))"
    by (rule host_call_exclusive)
  then show ?case using Cons.IH by simp
qed

text \<open>
  C5. After every sequence of \<open>init\<close>, \<open>update\<close> and \<open>on_exit\<close> calls from the initial
  dictionary, with any buttons and any ticks, with or without the bluetooth module,
  \<open>is_connected\<close> and \<open>is_scanning\<close> are not both true. Every prefix of a sequence is
  a sequence, so this holds between any two calls.
\<close>

theorem connected_scanning_exclusive:
  "\<not> (is_connected (host_calls lib b cs (state :: 'd app_state))
      \<and> is_scanning (host_calls lib b cs (state :: 'd app_state)))"
  using host_calls_exclusive [of "state :: 'd app_state" lib b cs] by (simp add: state_def)

lemma update_disconnected_zero:
  "(\<not> is_connected s \<longrightarrow> heart_rate s = 0) \<Longrightarrow>
     \<not> is_connected (snd (update lib b pressed now s)) \<longrightarrow>
       heart_rate (snd (update lib b pressed now s)) = 0"
  by (auto simp add: snd_update Let_def simulate_hr_reading_fields
        handle_button_a_def scan_timeout_def start_scan_def split: if_splits)

lemma host_call_disconnected_zero:
  "(\<not> is_connected s \<longrightarrow> heart_rate s = 0) \<Longrightarrow>
     \<not> is_connected (host_call lib b c s) \<longrightarrow> heart_rate (host_call lib b c s) = 0"
  using update_disconnected_zero [of s] by (cases c) (simp_all add: init_def on_exit_def)

lemma host_calls_disconnected_zero:
  "(\<not> is_connected s \<longrightarrow> heart_rate s = 0) \<Longrightarrow>
     \<not> is_connected (host_calls lib b cs s) \<longrightarrow> heart_rate (host_calls lib b cs s) = 0"
proof (induction cs arbitrary: s)
  case Nil
  then show ?case by simp
next
  case (Cons c cs)
  from Cons.prems
  have "\<not> is_connected (host_call lib b c s) \<longrightarrow> heart_rate (host_call lib b c s) = 0"
    by (rule host_call_disconnected_zero)
  then show ?case using Cons.IH by simp
qed

text \<open>
  C6. After every sequence of \<open>init\<close>, \<open>update\<close> and \<open>on_exit\<close> calls from the initial
  dictionary, whenever \<open>is_connected\<close> is false, \<open>heart_rate\<close> is 0.
\<close>

theorem disconnected_heart_rate_zero:
  "\<not> is_connected (host_calls lib b cs (state :: 'd app_state)) \<longrightarrow>
     heart_rate (host_calls lib b cs (state :: 'd app_state)) = 0"
  using host_calls_disconnected_zero [of "state :: 'd app_state" lib b cs]
  by (simp add: state_def)

text \<open>
  A run that scans, connects at tick 3001, reads a heart rate of at least 64 at tick
  3600 and disconnects at tick 4000: the heart rate is 0 again.
\<close>

theorem disconnected_heart_rate_zero_witness:
  "is_connected (host_calls exact_lib True
       [Init, Update {BUTTON_A} 0, Update {} 3001, Update {} 3600] (state :: string app_state))
   \<and> 64 \<le> heart_rate (host_calls exact_lib True
       [Init, Update {BUTTON_A} 0, Update {} 3001, Update {} 3600] (state :: string app_state))
   \<and> \<not> is_connected (host_calls exact_lib True
       [Init, Update {BUTTON_A} 0, Update {} 3001, Update {} 3600, Update {BUTTON_A} 4000]
       (state :: string app_state))
   \<and> heart_rate (host_calls exact_lib True
       [Init, Update {BUTTON_A} 0, Update {} 3001, Update {} 3600, Update {BUTTON_A} 4000]
       (state :: string app_state)) = 0"
  using disconnected_heart_rate_zero
    [where ?'d = string and lib = exact_lib and b = True
       and cs = "[Init, Update {BUTTON_A} 0, Update {} 3001, Update {} 3600,
                  Update {BUTTON_A} 4000]"]
    variation_bounds [of "sin (18 / 5)"]
  by (simp add: update_defs state_def init_def exact_lib_def)

subsection \<open>The scan timeout\<close>

text \<open>
  C3, as the specification states it, for every frame: it fails in a frame in which the
  home button is pressed, since \<open>update\<close> returns at line 106, before the timeout check
  of lines 115-121. After a scan started at tick 0, the frame at tick 3001 with the home
  button pressed leaves the app scanning and not connected, with \<open>hr_update_time\<close>
  not set to 3001.
\<close>

theorem update_home_skips_timeout:
  "is_scanning (host_calls exact_lib True [Update {BUTTON_A} 0] (state :: string app_state))
   \<and> 3001 - scan_start
         (host_calls exact_lib True [Update {BUTTON_A} 0] (state :: string app_state))
        \<ge> scan_duration
         (host_calls exact_lib True [Update {BUTTON_A} 0] (state :: string app_state))
   \<and> is_scanning (snd (update exact_lib True {BUTTON_HOME} 3001
        (host_calls exact_lib True [Update {BUTTON_A} 0] (state :: string app_state))))
   \<and> \<not> is_connected (snd (update exact_lib True {BUTTON_HOME} 3001
        (host_calls exact_lib True [Update {BUTTON_A} 0] (state :: string app_state))))
   \<and> hr_update_time (snd (update exact_lib True {BUTTON_HOME} 3001
        (host_calls exact_lib True [Update {BUTTON_A} 0] (state :: string app_state))))
        \<noteq> 3001"
  by (simp add: update_defs state_def)

text \<open>
  C3, amended. The timeout check itself, whenever it is reached with \<open>is_scanning\<close>
  true: if \<open>now - scan_start \<ge> scan_duration\<close> it performs exactly \<open>is_scanning := false\<close>,
  \<open>is_connected := true\<close>, \<open>hr_update_time := now\<close>, and if
  \<open>now - scan_start < scan_duration\<close> it changes nothing. A whole frame in which the
  home button is not pressed and the app is scanning (and so not connected) does exactly
  the same: the three assignments and nothing else when the scan has run its duration,
  no change when it has not. A frame in which the home button is pressed while scanning
  returns false and changes nothing.
\<close>

theorem scan_timeout_transition:
  "(is_scanning s \<and> now - scan_start s \<ge> scan_duration s \<longrightarrow>
      scan_timeout now s
        = s\<lparr>is_scanning := False, is_connected := True, hr_update_time := now\<rparr>)
   \<and> (is_scanning s \<and> now - scan_start s < scan_duration s \<longrightarrow> scan_timeout now s = s)
   \<and> (BUTTON_HOME \<notin> pressed \<and> is_scanning s \<and> \<not> is_connected s
        \<and> now - scan_start s \<ge> scan_duration s \<longrightarrow>
      update lib b pressed now s =
        (Inr True, s\<lparr>is_scanning := False, is_connected := True, hr_update_time := now\<rparr>))
   \<and> (BUTTON_HOME \<notin> pressed \<and> is_scanning s \<and> \<not> is_connected s
        \<and> now - scan_start s < scan_duration s \<longrightarrow>
      snd (update lib b pressed now s) = s)
   \<and> (BUTTON_HOME \<in> pressed \<and> is_scanning s \<and> \<not> is_connected s \<longrightarrow>
      update lib b pressed now s = (Inr False, s))"
  by (simp add: update_defs)

text \<open>
  A scan started at tick 40: at tick 3040 the check and the frame connect, at tick 3039
  they change nothing, and the frame at tick 3040 with the home button pressed changes
  nothing.
\<close>

theorem scan_timeout_transition_witness:
  "BUTTON_HOME \<notin> {} \<and> BUTTON_HOME \<in> {BUTTON_HOME}
   \<and> is_scanning (state\<lparr>is_scanning := True, scan_start := 40\<rparr> :: string app_state)
   \<and> \<not> is_connected (state\<lparr>is_scanning := True, scan_start := 40\<rparr> :: string app_state)
   \<and> 3040 - scan_start (state\<lparr>is_scanning := True, scan_start := 40\<rparr> :: string app_state)
        \<ge> scan_duration (state\<lparr>is_scanning := True, scan_start := 40\<rparr> :: string app_state)
   \<and> 3039 - scan_start (state\<lparr>is_scanning := True, scan_start := 40\<rparr> :: string app_state)
        < scan_duration (state\<lparr>is_scanning := True, scan_start := 40\<rparr> :: string app_state)
   \<and> scan_timeout 3040 (state\<lparr>is_scanning := True, scan_start := 40\<rparr> :: string app_state)
        = state\<lparr>is_connected := True, scan_start := 40, hr_update_time := 3040\<rparr>
   \<and> update exact_lib True {} 3040
          (state\<lparr>is_scanning := True, scan_start := 40\<rparr> :: string app_state)
        = (Inr True, state\<lparr>is_connected := True, scan_start := 40, hr_update_time := 3040\<rparr>)
   \<and> scan_timeout 3039 (state\<lparr>is_scanning := True, scan_start := 40\<rparr> :: string app_state)
        = state\<lparr>is_scanning := True, scan_start := 40\<rparr>
   \<and> snd (update exact_lib True {} 3039
          (state\<lparr>is_scanning := True, scan_start := 40\<rparr> :: string app_state))
        = state\<lparr>is_scanning := True, scan_start := 40\<rparr>
   \<and> update exact_lib True {BUTTON_HOME} 3040
          (state\<lparr>is_scanning := True, scan_start := 40\<rparr> :: string app_state)
        = (Inr False, state\<lparr>is_scanning := True, scan_start := 40\<rparr>)"
  using
    scan_timeout_transition
      [where s = "state\<lparr>is_scanning := True, scan_start := 40\<rparr> :: string app_state"
         and now = 3040 and pressed = "{}" and b = True and lib = exact_lib]
    scan_timeout_transition
      [where s = "state\<lparr>is_scanning := True, scan_start := 40\<rparr> :: string app_state"
         and now = 3039 and pressed = "{}" and b = True and lib = exact_lib]
    scan_timeout_transition
      [where s = "state\<lparr>is_scanning := True, scan_start := 40\<rparr> :: string app_state"
         and now = 3040 and pressed = "{BUTTON_HOME}" and b = True and lib = exact_lib]
  by (simp add: state_def)

subsection \<open>From the button press to the first reading\<close>

lemma update_scanning_waits:
  "is_scanning s \<Longrightarrow> \<not> is_connected s \<Longrightarrow> now - scan_start s < scan_duration s \<Longrightarrow>
     BUTTON_HOME \<notin> pressed \<Longrightarrow> snd (update lib b pressed now s) = s"
  by (simp add: update_defs)

lemma host_calls_scanning_waits:
  "is_scanning s \<Longrightarrow> \<not> is_connected s \<Longrightarrow> \<forall>t\<in>set ts. t - scan_start s < scan_duration s \<Longrightarrow>
     host_calls lib b (map (Update {}) ts) s = s"
  by (induction ts) (simp_all add: update_scanning_waits)

text \<open>
  C2, as the specification states it: it fails. In the frame sequence press at tick 0,
  then button-free frames at ticks 100, 1000 and 3001, the frame at 3001 connects and
  sets \<open>hr_update_time\<close> to 3001 (line 121) before \<^verbatim>\<open>_simulate_hr_reading\<close> runs in the
  same frame, where \<open>now - hr_update_time\<close> is then 0: no reading is taken, and the
  heart rate is still 0, outside the interval from 64 to 80.
\<close>

theorem scan_end_to_end_not_populated:
  "is_connected (host_calls exact_lib True
      [Update {BUTTON_A} 0, Update {} 100, Update {} 1000, Update {} 3001]
      (state :: string app_state))
   \<and> \<not> (64 \<le> heart_rate (host_calls exact_lib True
      [Update {BUTTON_A} 0, Update {} 100, Update {} 1000, Update {} 3001]
      (state :: string app_state))
      \<and> heart_rate (host_calls exact_lib True
      [Update {BUTTON_A} 0, Update {} 100, Update {} 1000, Update {} 3001]
      (state :: string app_state)) \<le> 80)"
  by (simp add: update_defs state_def)

text \<open>
  C2, amended. With the bluetooth module available and \<open>scan_duration\<close> at 3000: for
  every run that starts a scan at tick \<open>t0\<close> from a state neither connected nor
  scanning, followed by button-free frames at ticks less than 3000 after \<open>t0\<close>, the
  first button-free frame at a tick \<open>now\<close> with \<open>now - t0 \<ge> 3000\<close> makes the state
  connected and not scanning with \<open>hr_update_time = now\<close>, and leaves \<open>heart_rate\<close>
  as it was before the scan. A next button-free frame less than 500 ms later changes
  nothing; one at a tick \<open>later\<close> with \<open>later - now \<ge> 500\<close> populates \<open>heart_rate\<close> with
  72 plus the truncated eightfold of the float library's sine of \<^verbatim>\<open>later / 1000.0\<close>,
  a value in the interval from 64 to 80 since that sine is at most 1 in absolute value
  (and changes nothing if the tick is beyond the range of floats). Concretely, after
  the frames at ticks 0 (press), 100, 1000 and 3001 the state is connected with heart
  rate 0.
\<close>

theorem scan_connects_after_duration:
  assumes idle: "\<not> is_connected s" "\<not> is_scanning s"
    and dur: "scan_duration s = 3000"
    and press: "BUTTON_A \<in> pressed"
    and waiting: "\<forall>t\<in>set ts. t - t0 < 3000"
    and elapsed: "now - t0 \<ge> 3000"
  shows "host_calls lib True (Update pressed t0 # map (Update {}) ts @ [Update {} now]) s
           = s\<lparr>is_scanning := False, is_connected := True, scan_start := t0,
               devices_found := [], hr_update_time := now\<rparr>
         \<and> (later - now < 500 \<longrightarrow>
              host_calls lib True
                (Update pressed t0 # map (Update {}) ts @ [Update {} now, Update {} later]) s
              = s\<lparr>is_scanning := False, is_connected := True, scan_start := t0,
                  devices_found := [], hr_update_time := now\<rparr>)
         \<and> (later - now \<ge> 500 \<and> truediv lib later 1000 = Some x
              \<and> \<bar>math_sin lib x\<bar> \<le> 1 \<longrightarrow>
              host_calls lib True
                (Update pressed t0 # map (Update {}) ts @ [Update {} now, Update {} later]) s
              = s\<lparr>is_scanning := False, is_connected := True, scan_start := t0,
                  devices_found := [], hr_update_time := later,
                  heart_rate := 72 + int_of_float (math_sin lib x * 8)\<rparr>
              \<and> 64 \<le> 72 + int_of_float (math_sin lib x * 8)
              \<and> 72 + int_of_float (math_sin lib x * 8) \<le> 80)
         \<and> (later - now \<ge> 500 \<and> truediv lib later 1000 = None \<longrightarrow>
              host_calls lib True
                (Update pressed t0 # map (Update {}) ts @ [Update {} now, Update {} later]) s
              = s\<lparr>is_scanning := False, is_connected := True, scan_start := t0,
                  devices_found := [], hr_update_time := now\<rparr>)"
proof -
  let ?s1 = "s\<lparr>is_scanning := True, scan_start := t0, devices_found := []\<rparr>"
  let ?s2 = "s\<lparr>is_scanning := False, is_connected := True, scan_start := t0,
               devices_found := [], hr_update_time := now\<rparr>"
  have s1: "snd (update lib True pressed t0 s) = ?s1"
    using idle dur press by (simp add: update_defs)
  have wait: "host_calls lib True (map (Update {}) ts) ?s1 = ?s1"
    using idle dur waiting by (intro host_calls_scanning_waits) simp_all
  have s2: "snd (update lib True {} now ?s1) = ?s2"
    using idle dur elapsed by (simp add: update_defs)
  have run: "host_calls lib True
      (Update pressed t0 # map (Update {}) ts @ [Update {} now]) s = ?s2"
    by (simp add: host_calls_append s1 wait s2)
  have run2: "host_calls lib True
      (Update pressed t0 # map (Update {}) ts @ [Update {} now, Update {} later]) s
      = snd (update lib True {} later ?s2)"
    by (simp add: host_calls_append s1 wait s2)
  show ?thesis
    using variation_bounds [of "math_sin lib x"]
    unfolding run run2 by (auto simp add: update_defs)
qed

theorem scan_connects_after_duration_witness:
  "\<not> is_connected (state :: string app_state) \<and> \<not> is_scanning (state :: string app_state)
   \<and> scan_duration (state :: string app_state) = 3000
   \<and> BUTTON_A \<in> {BUTTON_A}
   \<and> (100 :: int) - 0 < 3000 \<and> (1000 :: int) - 0 < 3000 \<and> (3001 :: int) - 0 \<ge> 3000
   \<and> (3400 :: int) - 3001 < 500 \<and> (3501 :: int) - 3001 \<ge> 500
   \<and> truediv exact_lib 3501 1000 = Some (3501 / 1000)
   \<and> \<bar>math_sin exact_lib (3501 / 1000)\<bar> \<le> 1
   \<and> host_calls exact_lib True
       [Update {BUTTON_A} 0, Update {} 100, Update {} 1000, Update {} 3001]
       (state :: string app_state)
     = state\<lparr>is_connected := True, hr_update_time := 3001\<rparr>
   \<and> heart_rate (host_calls exact_lib True
       [Update {BUTTON_A} 0, Update {} 100, Update {} 1000, Update {} 3001]
       (state :: string app_state)) = 0
   \<and> host_calls exact_lib True
       [Update {BUTTON_A} 0, Update {} 100, Update {} 1000, Update {} 3001, Update {} 3400]
       (state :: string app_state)
     = state\<lparr>is_connected := True, hr_update_time := 3001\<rparr>
   \<and> 64 \<le> heart_rate (host_calls exact_lib True
       [Update {BUTTON_A} 0, Update {} 100, Update {} 1000, Update {} 3001, Update {} 3501]
       (state :: string app_state))
   \<and> heart_rate (host_calls exact_lib True
       [Update {BUTTON_A} 0, Update {} 100, Update {} 1000, Update {} 3001, Update {} 3501]
       (state :: string app_state)) \<le> 80
   \<and> (3001 + 2 ^ 1024 :: int) - 3001 \<ge> 500
   \<and> truediv exact_lib (3001 + 2 ^ 1024) 1000 = None
   \<and> host_calls exact_lib True
       [Update {BUTTON_A} 0, Update {} 100, Update {} 1000, Update {} 3001,
        Update {} (3001 + 2 ^ 1024)]
       (state :: string app_state)
     = state\<lparr>is_connected := True, hr_update_time := 3001\<rparr>"
  using
    scan_connects_after_duration
      [where s = "state :: string app_state" and pressed = "{BUTTON_A}" and ts = "[100, 1000]"
         and ?t0.0 = 0 and now = 3001 and later = 3400 and lib = exact_lib and x = 0]
    scan_connects_after_duration
      [where s = "state :: string app_state" and pressed = "{BUTTON_A}" and ts = "[100, 1000]"
         and ?t0.0 = 0 and now = 3001 and later = 3501 and lib = exact_lib
         and x = "3501 / 1000"]
    scan_connects_after_duration
      [where s = "state :: string app_state" and pressed = "{BUTTON_A}" and ts = "[100, 1000]"
         and ?t0.0 = 0 and now = 3001 and later = "3001 + 2 ^ 1024" and lib = exact_lib
         and x = 0]
  by (simp add: state_def update_defs exact_lib_truediv exact_lib_sin)
end
